theory Spec2Isabelle
  imports Main
begin

section \<open>Values, exceptions and the surroundings of the handlers\<close>

text \<open>
  The program is \<^verbatim>\<open>app.py\<close>: four Flask handlers, each of which opens a MongoDB client,
  validates the query parameters, runs one read, shapes the result and closes the client.

  A Python \<^verbatim>\<open>str\<close> is represented by its UTF-8 encoding, a \<^typ>\<open>string\<close>. The handlers
  themselves only compare strings and test them for emptiness, which the encoding
  preserves; every other string operation is a call into the interpreter or a library.

  Values are those that BSON documents and loaded YAML carry. Numbers are integers:
  floating-point values are outside the model. \<open>VOid\<close> holds an ObjectId by its hex
  form, \<open>VDate\<close> a timestamp.
\<close>

datatype val =
    VNull
  | VBool bool
  | VInt int
  | VStr string
  | VOid string
  | VDate int
  | VList "val list"
  | VDict "(string \<times> val) list"

type_synonym doc = "(string \<times> val) list"

text \<open>
  The exceptions that can travel through a handler. \<open>ValueError s\<close> is what
  \<^verbatim>\<open>int(s)\<close> raises on a string \<open>s\<close> it cannot convert; \<open>KeyError k\<close> is a subscript
  with an absent key; \<open>OtherError\<close> stands for any further exception of a library.
\<close>

datatype exc =
    ConnectionFailure
  | YAMLError
  | ValueError string
  | KeyError string
  | TypeError
  | AttributeError
  | OtherError string

text \<open>
  The body of a response is the value handed to \<^verbatim>\<open>jsonify\<close>. \<open>ErrorStr e\<close> is the
  body \<^verbatim>\<open>{'error': str(e)}\<close> of the catch-all clause: the text of \<^verbatim>\<open>str(e)\<close> belongs
  to the interpreter, so the body records the exception it renders.
\<close>

datatype body = Json val | ErrorStr exc

type_synonym response = "body \<times> nat"

type_synonym args = "string \<Rightarrow> string option"

text \<open>What a handler does to the outside, in order.\<close>

datatype event =
    ClientCreated string int
  | Ping
  | Find string doc
  | FindOne string doc
  | ClientClosed

datatype client = Client string int

text \<open>
  Everything the handlers call but do not define: the process environment, the
  interpreter's \<^verbatim>\<open>int\<close>, \<^verbatim>\<open>str\<close> and \<^verbatim>\<open>str.isdigit\<close>, \<^verbatim>\<open>bson.ObjectId\<close>,
  \<^verbatim>\<open>yaml.safe_load\<close>, and the driver. \<open>py_int s\<close> is \<open>None\<close> where \<^verbatim>\<open>int(s)\<close> raises
  \<^verbatim>\<open>ValueError\<close>; \<open>bson_ObjectId s\<close> is the hex form of \<^verbatim>\<open>ObjectId(s)\<close>, or \<open>None\<close>
  where the constructor raises. The constructor of the client and the ping either
  succeed or raise. A query returns its documents in the database's order, or raises.
\<close>

record world =
  os_environ :: "string \<Rightarrow> string option"
  py_int :: "string \<Rightarrow> int option"
  py_str :: "val \<Rightarrow> string"
  str_isdigit :: "string \<Rightarrow> bool"
  bson_ObjectId :: "string \<Rightarrow> string option"
  yaml_safe_load :: "val \<Rightarrow> exc + val"
  mongo_client_new :: "string \<Rightarrow> int \<Rightarrow> exc option"
  admin_ping :: "string \<Rightarrow> int \<Rightarrow> exc option"
  db_find :: "string \<Rightarrow> doc \<Rightarrow> string list \<Rightarrow> exc + doc list"
  db_find_one :: "string \<Rightarrow> doc \<Rightarrow> string list \<Rightarrow> exc + doc option"

section \<open>The Python operations the handlers use\<close>

text \<open>Sequencing of steps that may raise.\<close>

definition bind_exc :: "exc + 'a \<Rightarrow> ('a \<Rightarrow> exc + 'b) \<Rightarrow> exc + 'b" where
  "bind_exc m f = (case m of Inl e \<Rightarrow> Inl e | Inr x \<Rightarrow> f x)"

text \<open>A list comprehension whose element expression may raise.\<close>

fun map_exc :: "('a \<Rightarrow> exc + 'b) \<Rightarrow> 'a list \<Rightarrow> exc + 'b list" where
  "map_exc f [] = Inr []"
| "map_exc f (x # xs) =
     (case f x of
        Inl e \<Rightarrow> Inl e
      | Inr y \<Rightarrow> (case map_exc f xs of Inl e \<Rightarrow> Inl e | Inr ys \<Rightarrow> Inr (y # ys)))"

text \<open>\<^verbatim>\<open>d[k]\<close>, \<^verbatim>\<open>d.get(k)\<close> and \<^verbatim>\<open>d.get(k, default)\<close> on a document.\<close>

definition getitem :: "doc \<Rightarrow> string \<Rightarrow> exc + val" where
  "getitem d k = (case map_of d k of None \<Rightarrow> Inl (KeyError k) | Some v \<Rightarrow> Inr v)"

definition get_or :: "doc \<Rightarrow> string \<Rightarrow> val \<Rightarrow> val" where
  "get_or d k dflt = (case map_of d k of None \<Rightarrow> dflt | Some v \<Rightarrow> v)"

text \<open>Truth value of a Python object.\<close>

fun truthy :: "val \<Rightarrow> bool" where
  "truthy VNull = False"
| "truthy (VBool b) = b"
| "truthy (VInt n) = (n \<noteq> 0)"
| "truthy (VStr s) = (s \<noteq> [])"
| "truthy (VOid h) = True"
| "truthy (VDate t) = True"
| "truthy (VList xs) = (xs \<noteq> [])"
| "truthy (VDict kvs) = (kvs \<noteq> [])"

text \<open>Substring test, for \<^verbatim>\<open>k in s\<close> on a string.\<close>

fun is_prefix :: "string \<Rightarrow> string \<Rightarrow> bool" where
  "is_prefix [] ys = True"
| "is_prefix (x # xs) [] = False"
| "is_prefix (x # xs) (y # ys) = (x = y \<and> is_prefix xs ys)"

fun is_substring :: "string \<Rightarrow> string \<Rightarrow> bool" where
  "is_substring xs [] = (xs = [])"
| "is_substring xs (y # ys) = (is_prefix xs (y # ys) \<or> is_substring xs ys)"

text \<open>\<^verbatim>\<open>k in v\<close> for a string \<open>k\<close>: key of a dict, element of a list, substring of a string.\<close>

fun py_contains :: "string \<Rightarrow> val \<Rightarrow> exc + bool" where
  "py_contains k (VDict kvs) = Inr (k \<in> set (map fst kvs))"
| "py_contains k (VList xs) = Inr (VStr k \<in> set xs)"
| "py_contains k (VStr s) = Inr (is_substring k s)"
| "py_contains k _ = Inl TypeError"

text \<open>\<^verbatim>\<open>v[k]\<close> for a string \<open>k\<close>: only a dict can be subscripted by a string.\<close>

fun py_subscript :: "val \<Rightarrow> string \<Rightarrow> exc + val" where
  "py_subscript (VDict kvs) k = getitem kvs k"
| "py_subscript _ k = Inl TypeError"

text \<open>
  The elements a \<^verbatim>\<open>for\<close> loop visits. A dict yields its keys, a string yields
  one-character strings (here one per byte: only their being strings matters below).
\<close>

fun py_iter :: "val \<Rightarrow> exc + val list" where
  "py_iter (VList xs) = Inr xs"
| "py_iter (VDict kvs) = Inr (map (\<lambda>kv. VStr (fst kv)) kvs)"
| "py_iter (VStr s) = Inr (map (\<lambda>c. VStr [c]) s)"
| "py_iter _ = Inl TypeError"

text \<open>\<^verbatim>\<open>subtask.get('score', 0)\<close>: only a dict has \<^verbatim>\<open>get\<close>.\<close>

fun py_get :: "val \<Rightarrow> string \<Rightarrow> val \<Rightarrow> exc + val" where
  "py_get (VDict kvs) k dflt = Inr (get_or kvs k dflt)"
| "py_get _ k dflt = Inl AttributeError"

text \<open>\<^verbatim>\<open>total += v\<close> with an integer total: \<^verbatim>\<open>bool\<close> is a subclass of \<^verbatim>\<open>int\<close>.\<close>

fun py_iadd :: "int \<Rightarrow> val \<Rightarrow> exc + int" where
  "py_iadd total_score (VInt n) = Inr (total_score + n)"
| "py_iadd total_score (VBool b) = Inr (total_score + (if b then 1 else 0))"
| "py_iadd total_score _ = Inl TypeError"

text \<open>
  \<^verbatim>\<open>jsonify\<close>: Flask serialises dates, but not an ObjectId, on which it raises
  \<^verbatim>\<open>TypeError\<close>.
\<close>

fun serializable :: "val \<Rightarrow> bool" where
  "serializable (VOid h) = False"
| "serializable (VList xs) = (\<forall>x \<in> set xs. serializable x)"
| "serializable (VDict kvs) = (\<forall>v \<in> set (map snd kvs). serializable v)"
| "serializable _ = True"

definition jsonify :: "val \<Rightarrow> exc + body" where
  "jsonify v = (if serializable v then Inr (Json v) else Inl TypeError)"

text \<open>\<^verbatim>\<open>return jsonify(v), status\<close>.\<close>

definition respond :: "val \<Rightarrow> nat \<Rightarrow> exc + response" where
  "respond v st = bind_exc (jsonify v) (\<lambda>b. Inr (b, st))"

definition error_json :: "string \<Rightarrow> val" where
  "error_json msg = VDict [(''error'', VStr msg)]"

text \<open>\<^verbatim>\<open>int(s)\<close> on a string.\<close>

definition int_of_str :: "world \<Rightarrow> string \<Rightarrow> exc + int" where
  "int_of_str w s = (case py_int w s of None \<Rightarrow> Inl (ValueError s) | Some n \<Rightarrow> Inr n)"

section \<open>Connection handling\<close>

definition get_mongo_client :: "world \<Rightarrow> (exc + client) \<times> event list" where
  "get_mongo_client w =
     (let mongo_host = (case os_environ w ''MONGO_HOST'' of None \<Rightarrow> ''oj-mongo'' | Some h \<Rightarrow> h)
      in case int_of_str w
                (case os_environ w ''MONGO_PORT'' of None \<Rightarrow> ''27017'' | Some p \<Rightarrow> p) of
           Inl e \<Rightarrow> (Inl e, [])
         | Inr mongo_port \<Rightarrow>
             (case mongo_client_new w mongo_host mongo_port of
                Some e \<Rightarrow> (Inl e, [])
              | None \<Rightarrow>
                  (case admin_ping w mongo_host mongo_port of
                     Some e \<Rightarrow> (Inl e, [ClientCreated mongo_host mongo_port, Ping])
                   | None \<Rightarrow> (Inr (Client mongo_host mongo_port),
                               [ClientCreated mongo_host mongo_port, Ping]))))"

definition close_mongo_client :: "client option \<Rightarrow> event list" where
  "close_mongo_client client = (case client of None \<Rightarrow> [] | Some c \<Rightarrow> [ClientClosed])"

text \<open>The two \<^verbatim>\<open>except\<close> clauses that end every handler.\<close>

definition handle_exc :: "exc \<Rightarrow> response" where
  "handle_exc e =
     (case e of
        ConnectionFailure \<Rightarrow> (Json (error_json ''Failed to connect to MongoDB''), 500)
      | _ \<Rightarrow> (ErrorStr e, 500))"

definition finish :: "exc + response \<Rightarrow> response" where
  "finish r = (case r of Inl e \<Rightarrow> handle_exc e | Inr resp \<Rightarrow> resp)"

text \<open>The client was acquired: \<^verbatim>\<open>get_mongo_client\<close> returned.\<close>

definition connected :: "world \<Rightarrow> bool" where
  "connected w = (case fst (get_mongo_client w) of Inl e \<Rightarrow> False | Inr c \<Rightarrow> True)"

fun is_query :: "event \<Rightarrow> bool" where
  "is_query (Find name q) = True"
| "is_query (FindOne name q) = True"
| "is_query _ = False"

section \<open>The document route\<close>

text \<open>
  \<^verbatim>\<open>not domain_id\<close> holds when the parameter is absent (\<open>None\<close>) and when it is the
  empty string; the handlers below write the two cases out.
\<close>

text \<open>One element of the comprehension for \<^verbatim>\<open>docType == 30\<close>.\<close>

definition item30 :: "world \<Rightarrow> doc \<Rightarrow> exc + val" where
  "item30 w d =
     bind_exc (getitem d ''_id'') (\<lambda>oid.
     bind_exc (getitem d ''title'') (\<lambda>title.
       Inr (VDict [(''_id'', VStr (py_str w oid)),
                   (''docId'', VStr (py_str w (get_or d ''docId'' VNull))),
                   (''title'', title),
                   (''beginAt'', get_or d ''beginAt'' VNull),
                   (''pids'', get_or d ''pids'' (VList []))])))"

text \<open>The inner loop over the subtasks, with the running total.\<close>

fun sum_scores :: "val list \<Rightarrow> int \<Rightarrow> exc + int" where
  "sum_scores [] total_score = Inr total_score"
| "sum_scores (subtask # rest) total_score =
     bind_exc (py_get subtask ''score'' (VInt 0)) (\<lambda>v.
     bind_exc (py_iadd total_score v) (\<lambda>t. sum_scores rest t))"

definition score_of_config :: "val \<Rightarrow> exc + int" where
  "score_of_config config_data =
     (if truthy config_data then
        bind_exc (py_contains ''subtasks'' config_data) (\<lambda>has.
          if has then
            bind_exc (py_subscript config_data ''subtasks'') (\<lambda>st.
            bind_exc (py_iter st) (\<lambda>subtasks. sum_scores subtasks 0))
          else Inr 0)
      else Inr 0)"

text \<open>The body of the inner \<^verbatim>\<open>try\<close>, and its \<^verbatim>\<open>except yaml.YAMLError\<close> clause.\<close>

definition item10_try :: "world \<Rightarrow> doc \<Rightarrow> exc + val" where
  "item10_try w d =
     bind_exc (getitem d ''config'') (\<lambda>config.
     bind_exc (yaml_safe_load w config) (\<lambda>config_data.
     bind_exc (score_of_config config_data) (\<lambda>total_score.
     bind_exc (getitem d ''_id'') (\<lambda>oid.
     bind_exc (getitem d ''docId'') (\<lambda>doc_id.
     bind_exc (getitem d ''title'') (\<lambda>title.
     bind_exc (getitem d ''pid'') (\<lambda>pid.
       Inr (VDict [(''_id'', VStr (py_str w oid)),
                   (''docId'', doc_id),
                   (''title'', title),
                   (''pid'', pid),
                   (''score'', VInt total_score)]))))))))"

definition item10_except :: "world \<Rightarrow> doc \<Rightarrow> exc + val" where
  "item10_except w d =
     bind_exc (getitem d ''_id'') (\<lambda>oid.
     bind_exc (getitem d ''docId'') (\<lambda>doc_id.
     bind_exc (getitem d ''title'') (\<lambda>title.
     bind_exc (getitem d ''pid'') (\<lambda>pid.
       Inr (VDict [(''_id'', VStr (py_str w oid)),
                   (''docId'', doc_id),
                   (''title'', title),
                   (''pid'', pid),
                   (''score'', VInt 0),
                   (''error'', VStr ''Invalid config format'')])))))"

definition item10 :: "world \<Rightarrow> doc \<Rightarrow> exc + val" where
  "item10 w d =
     (case item10_try w d of
        Inl YAMLError \<Rightarrow> item10_except w d
      | r \<Rightarrow> r)"

text \<open>The loop over the documents for \<^verbatim>\<open>docType == 10\<close>, appending to \<^verbatim>\<open>result\<close>.\<close>

fun loop10 :: "world \<Rightarrow> doc list \<Rightarrow> val list \<Rightarrow> exc + val list" where
  "loop10 w [] result = Inr result"
| "loop10 w (d # ds) result =
     (case item10 w d of
        Inl e \<Rightarrow> Inl e
      | Inr item \<Rightarrow> loop10 w ds (result @ [item]))"

definition query30 :: "string \<Rightarrow> doc" where
  "query30 domain_id = [(''domainId'', VStr domain_id), (''docType'', VInt 30)]"

definition query10 :: "string \<Rightarrow> doc" where
  "query10 domain_id = [(''domainId'', VStr domain_id), (''docType'', VInt 10)]"

definition fields30 :: "string list" where
  "fields30 = [''_id'', ''docId'', ''title'', ''beginAt'', ''pids'']"

definition fields10 :: "string list" where
  "fields10 = [''_id'', ''docId'', ''title'', ''pid'', ''config'']"

text \<open>\<^verbatim>\<open>int(request.args.get('docType', 0))\<close>.\<close>

definition doc_type_arg :: "world \<Rightarrow> args \<Rightarrow> exc + int" where
  "doc_type_arg w args = (case args ''docType'' of None \<Rightarrow> Inr 0 | Some s \<Rightarrow> int_of_str w s)"

text \<open>The handler's \<^verbatim>\<open>try\<close> block after the client is there.\<close>

definition documents_body :: "world \<Rightarrow> args \<Rightarrow> (exc + response) \<times> event list" where
  "documents_body w args =
     (case doc_type_arg w args of
        Inl e \<Rightarrow> (Inl e, [])
      | Inr doc_type \<Rightarrow>
          (case args ''domainId'' of
             None \<Rightarrow> (respond (error_json ''domainId is required'') 400, [])
           | Some domain_id \<Rightarrow>
               if domain_id = [] then (respond (error_json ''domainId is required'') 400, [])
               else if doc_type = 30 then
                 (bind_exc (db_find w ''document'' (query30 domain_id) fields30) (\<lambda>documents.
                  bind_exc (map_exc (item30 w) documents) (\<lambda>result.
                    respond (VList result) 200)),
                  [Find ''document'' (query30 domain_id)])
               else if doc_type = 10 then
                 (bind_exc (db_find w ''document'' (query10 domain_id) fields10) (\<lambda>documents.
                  bind_exc (loop10 w documents []) (\<lambda>result.
                    respond (VList result) 200)),
                  [Find ''document'' (query10 domain_id)])
               else (respond (error_json ''Invalid docType'') 400, [])))"

definition get_documents :: "world \<Rightarrow> args \<Rightarrow> response \<times> event list" where
  "get_documents w args =
     (case get_mongo_client w of
        (Inl e, tr) \<Rightarrow> (handle_exc e, tr @ close_mongo_client None)
      | (Inr client, tr) \<Rightarrow>
          (case documents_body w args of
             (r, tr') \<Rightarrow> (finish r, tr @ tr' @ close_mongo_client (Some client))))"

section \<open>The record route\<close>

definition item_record :: "world \<Rightarrow> doc \<Rightarrow> exc + val" where
  "item_record w r =
     bind_exc (getitem r ''_id'') (\<lambda>oid.
     bind_exc (getitem r ''status'') (\<lambda>status.
     bind_exc (getitem r ''uid'') (\<lambda>uid.
     bind_exc (getitem r ''pid'') (\<lambda>pid.
     bind_exc (getitem r ''score'') (\<lambda>score.
       Inr (VDict [(''_id'', VStr (py_str w oid)),
                   (''status'', status),
                   (''uid'', uid),
                   (''pid'', pid),
                   (''score'', score),
                   (''judgeAt'', get_or r ''judgeAt'' VNull)]))))))"

definition query_record :: "string \<Rightarrow> string \<Rightarrow> doc" where
  "query_record domain_id contest_id =
     [(''domainId'', VStr domain_id), (''contest'', VOid contest_id)]"

definition fields_record :: "string list" where
  "fields_record = [''_id'', ''status'', ''uid'', ''pid'', ''score'', ''judgeAt'']"

definition records_body :: "world \<Rightarrow> args \<Rightarrow> (exc + response) \<times> event list" where
  "records_body w args =
     (case args ''domainId'' of
        None \<Rightarrow> (respond (error_json ''domainId is required'') 400, [])
      | Some domain_id \<Rightarrow>
          if domain_id = [] then (respond (error_json ''domainId is required'') 400, [])
          else
            (case args ''contest'' of
               None \<Rightarrow> (respond (error_json ''contest is required'') 400, [])
             | Some contest_id_str \<Rightarrow>
                 if contest_id_str = [] then (respond (error_json ''contest is required'') 400, [])
                 else
                   (case bson_ObjectId w contest_id_str of
                      None \<Rightarrow> (respond (error_json ''Invalid contest ObjectId'') 400, [])
                    | Some contest_id \<Rightarrow>
                        (bind_exc (db_find w ''record'' (query_record domain_id contest_id)
                                     fields_record) (\<lambda>records.
                         bind_exc (map_exc (item_record w) records) (\<lambda>result.
                           respond (VList result) 200)),
                         [Find ''record'' (query_record domain_id contest_id)]))))"

definition get_records :: "world \<Rightarrow> args \<Rightarrow> response \<times> event list" where
  "get_records w args =
     (case get_mongo_client w of
        (Inl e, tr) \<Rightarrow> (handle_exc e, tr @ close_mongo_client None)
      | (Inr client, tr) \<Rightarrow>
          (case records_body w args of
             (r, tr') \<Rightarrow> (finish r, tr @ tr' @ close_mongo_client (Some client))))"

section \<open>The user route\<close>

definition user_body :: "world \<Rightarrow> args \<Rightarrow> (exc + response) \<times> event list" where
  "user_body w args =
     (case args ''_id'' of
        None \<Rightarrow> (respond (error_json ''_id is required'') 400, [])
      | Some user_id \<Rightarrow>
          if user_id = [] then (respond (error_json ''_id is required'') 400, [])
          else if \<not> str_isdigit w user_id then
            (respond (error_json ''_id must be an integer'') 400, [])
          else
            (case int_of_str w user_id of
               Inl e \<Rightarrow> (Inl e, [])
             | Inr n \<Rightarrow>
                 (bind_exc (db_find_one w ''user'' [(''_id'', VInt n)] [''uname'']) (\<lambda>user.
                    case user of
                      None \<Rightarrow> respond (error_json ''User not found'') 404
                    | Some u \<Rightarrow>
                        if u = [] then respond (error_json ''User not found'') 404
                        else bind_exc (getitem u ''uname'') (\<lambda>uname.
                               respond (VDict [(''uname'', uname)]) 200)),
                  [FindOne ''user'' [(''_id'', VInt n)]])))"

definition get_user :: "world \<Rightarrow> args \<Rightarrow> response \<times> event list" where
  "get_user w args =
     (case get_mongo_client w of
        (Inl e, tr) \<Rightarrow> (handle_exc e, tr @ close_mongo_client None)
      | (Inr client, tr) \<Rightarrow>
          (case user_body w args of
             (r, tr') \<Rightarrow> (finish r, tr @ tr' @ close_mongo_client (Some client))))"

section \<open>The user-group route\<close>

definition item_group :: "world \<Rightarrow> doc \<Rightarrow> exc + val" where
  "item_group w g =
     bind_exc (getitem g ''_id'') (\<lambda>oid.
     bind_exc (getitem g ''name'') (\<lambda>name.
       Inr (VDict [(''_id'', VStr (py_str w oid)),
                   (''name'', name),
                   (''uids'', get_or g ''uids'' (VList []))])))"

definition user_groups_body :: "world \<Rightarrow> args \<Rightarrow> (exc + response) \<times> event list" where
  "user_groups_body w args =
     (case args ''domainId'' of
        None \<Rightarrow> (respond (error_json ''domainId is required'') 400, [])
      | Some domain_id \<Rightarrow>
          if domain_id = [] then (respond (error_json ''domainId is required'') 400, [])
          else
            (bind_exc (db_find w ''user.group'' [(''domainId'', VStr domain_id)]
                         [''_id'', ''name'', ''uids'']) (\<lambda>user_groups.
             bind_exc (map_exc (item_group w) user_groups) (\<lambda>result.
               respond (VList result) 200)),
             [Find ''user.group'' [(''domainId'', VStr domain_id)]]))"

definition get_user_groups :: "world \<Rightarrow> args \<Rightarrow> response \<times> event list" where
  "get_user_groups w args =
     (case get_mongo_client w of
        (Inl e, tr) \<Rightarrow> (handle_exc e, tr @ close_mongo_client None)
      | (Inr client, tr) \<Rightarrow>
          (case user_groups_body w args of
             (r, tr') \<Rightarrow> (finish r, tr @ tr' @ close_mongo_client (Some client))))"

section \<open>A concrete environment\<close>

text \<open>
  The theorems below hold for every \<^typ>\<open>world\<close>. To run the handlers on examples, this
  section fixes one: an in-memory database and small stand-ins for the library calls.
  The stand-ins agree with the libraries on the inputs the examples use and are not
  meant beyond them: \<open>demo_int\<close> and \<open>demo_isdigit\<close> on strings of code points below
  U+0100 without sign, blank or underscore, \<open>demo_safe_load\<close> on the listed texts.
\<close>

definition ascii_digit :: "char \<Rightarrow> bool" where
  "ascii_digit c = (c \<in> set ''0123456789'')"

fun digits_value :: "string \<Rightarrow> int \<Rightarrow> int" where
  "digits_value [] acc = acc"
| "digits_value (c # cs) acc = digits_value cs (acc * 10 + (of_char c - 48))"

definition demo_int :: "string \<Rightarrow> int option" where
  "demo_int s = (if s \<noteq> [] \<and> list_all ascii_digit s then Some (digits_value s 0) else None)"

text \<open>
  \<^verbatim>\<open>str.isdigit\<close> accepts the decimal digits and also the superscript digits U+00B2,
  U+00B3 and U+00B9, whose UTF-8 forms are the byte \<open>0xC2\<close> followed by \<open>0xB2\<close>,
  \<open>0xB3\<close> or \<open>0xB9\<close>.
\<close>

fun all_digits :: "string \<Rightarrow> bool" where
  "all_digits [] = True"
| "all_digits [c] = ascii_digit c"
| "all_digits (c # c' # cs) =
     (if ascii_digit c then all_digits (c' # cs)
      else c = CHR 0xC2 \<and> c' \<in> set [CHR 0xB2, CHR 0xB3, CHR 0xB9] \<and> all_digits cs)"

definition demo_isdigit :: "string \<Rightarrow> bool" where
  "demo_isdigit s = (s \<noteq> [] \<and> all_digits s)"

definition superscript_two :: string where
  "superscript_two = [CHR 0xC2, CHR 0xB2]"

fun show_nat :: "nat \<Rightarrow> string" where
  "show_nat n =
     (if n < 10 then [char_of (48 + n)] else show_nat (n div 10) @ [char_of (48 + n mod 10)])"

fun demo_str :: "val \<Rightarrow> string" where
  "demo_str (VStr s) = s"
| "demo_str (VOid h) = h"
| "demo_str VNull = ''None''"
| "demo_str (VBool b) = (if b then ''True'' else ''False'')"
| "demo_str (VInt n) = (if n < 0 then CHR ''-'' # show_nat (nat (- n)) else show_nat (nat n))"
| "demo_str _ = ''<object>''"

definition hex_digit :: "char \<Rightarrow> bool" where
  "hex_digit c = (c \<in> set ''0123456789abcdef'')"

definition demo_ObjectId :: "string \<Rightarrow> string option" where
  "demo_ObjectId s = (if length s = 24 \<and> list_all hex_digit s then Some s else None)"

definition cfg_scored :: string where
  "cfg_scored = ''{subtasks: [{score: 40}, {score: 60}, {time: 1s}]}''"

definition cfg_plain :: string where
  "cfg_plain = ''time: 1s''"

definition cfg_null_subtasks :: string where
  "cfg_null_subtasks = ''subtasks: null''"

definition cfg_broken :: string where
  "cfg_broken = ''subtasks: [''"

fun demo_safe_load :: "val \<Rightarrow> exc + val" where
  "demo_safe_load (VStr s) =
     (if s = cfg_scored then
        Inr (VDict [(''subtasks'', VList [VDict [(''score'', VInt 40)],
                                          VDict [(''score'', VInt 60)],
                                          VDict [(''time'', VStr ''1s'')]])])
      else if s = cfg_plain then Inr (VDict [(''time'', VStr ''1s'')])
      else if s = cfg_null_subtasks then Inr (VDict [(''subtasks'', VNull)])
      else if s = [] then Inr VNull
      else if s = cfg_broken then Inl YAMLError
      else Inl (OtherError ''text outside the table''))"
| "demo_safe_load _ = Inl AttributeError"

definition oid1 :: string where "oid1 = ''64b000000000000000000001''"
definition oid2 :: string where "oid2 = ''64b000000000000000000002''"
definition oid3 :: string where "oid3 = ''64b000000000000000000003''"
definition oid4 :: string where "oid4 = ''64b000000000000000000004''"
definition oid9 :: string where "oid9 = ''64b000000000000000000009''"

definition demo_collection :: "string \<Rightarrow> doc list" where
  "demo_collection name =
     (if name = ''document'' then
        [[(''_id'', VOid oid1), (''domainId'', VStr ''system''), (''docType'', VInt 30),
          (''docId'', VOid oid2), (''title'', VStr ''Round 1''), (''beginAt'', VDate 1700000000),
          (''pids'', VList [VInt 1, VInt 2])],
         [(''_id'', VOid oid3), (''domainId'', VStr ''system''), (''docType'', VInt 30),
          (''title'', VStr ''Round 2'')],
         [(''_id'', VOid oid1), (''domainId'', VStr ''system''), (''docType'', VInt 10),
          (''docId'', VInt 1), (''title'', VStr ''A+B''), (''pid'', VStr ''P1000''),
          (''config'', VStr cfg_scored)],
         [(''_id'', VOid oid2), (''domainId'', VStr ''system''), (''docType'', VInt 10),
          (''docId'', VInt 2), (''title'', VStr ''Broken''), (''pid'', VStr ''P1001''),
          (''config'', VStr cfg_broken)],
         [(''_id'', VOid oid3), (''domainId'', VStr ''system''), (''docType'', VInt 10),
          (''docId'', VInt 3), (''title'', VStr ''Plain''), (''pid'', VStr ''P1002''),
          (''config'', VStr cfg_plain)],
         [(''_id'', VOid oid4), (''domainId'', VStr ''other''), (''docType'', VInt 10),
          (''docId'', VInt 4), (''title'', VStr ''Null subtasks''), (''pid'', VStr ''P1''),
          (''config'', VStr cfg_null_subtasks)]]
      else if name = ''record'' then
        [[(''_id'', VOid oid4), (''domainId'', VStr ''system''), (''contest'', VOid oid2),
          (''status'', VInt 1), (''uid'', VInt 42), (''pid'', VInt 1), (''score'', VInt 100)]]
      else if name = ''user'' then
        [[(''_id'', VInt 42), (''uname'', VStr ''alice'')]]
      else if name = ''user.group'' then
        [[(''_id'', VOid oid1), (''domainId'', VStr ''system''), (''name'', VStr ''staff''),
          (''uids'', VList [VInt 42])]]
      else [])"

text \<open>A filter matches a document that stores each of its values under the same key.\<close>

definition matches :: "doc \<Rightarrow> doc \<Rightarrow> bool" where
  "matches q d = list_all (\<lambda>kv. map_of d (fst kv) = Some (snd kv)) q"

definition project :: "string list \<Rightarrow> doc \<Rightarrow> doc" where
  "project fs d = filter (\<lambda>kv. fst kv = ''_id'' \<or> fst kv \<in> set fs) d"

definition demo_find :: "string \<Rightarrow> doc \<Rightarrow> string list \<Rightarrow> exc + doc list" where
  "demo_find name q fs = Inr (map (project fs) (filter (matches q) (demo_collection name)))"

definition demo_find_one :: "string \<Rightarrow> doc \<Rightarrow> string list \<Rightarrow> exc + doc option" where
  "demo_find_one name q fs =
     Inr (case filter (matches q) (demo_collection name) of
            [] \<Rightarrow> None
          | d # ds \<Rightarrow> Some (project fs d))"

definition demo_world :: world where
  "demo_world =
     \<lparr> os_environ = (\<lambda>k. None),
       py_int = demo_int,
       py_str = demo_str,
       str_isdigit = demo_isdigit,
       bson_ObjectId = demo_ObjectId,
       yaml_safe_load = demo_safe_load,
       mongo_client_new = (\<lambda>h p. None),
       admin_ping = (\<lambda>h p. None),
       db_find = demo_find,
       db_find_one = demo_find_one \<rparr>"

text \<open>The same environment with the database unreachable.\<close>

definition down_world :: world where
  "down_world = demo_world \<lparr> admin_ping := (\<lambda>h p. Some ConnectionFailure) \<rparr>"

text \<open>Query strings.\<close>

definition mk_args :: "(string \<times> string) list \<Rightarrow> args" where
  "mk_args kvs = map_of kvs"

definition contest1 :: doc where
  "contest1 = [(''_id'', VOid oid1), (''docId'', VOid oid2), (''title'', VStr ''Round 1''),
               (''beginAt'', VDate 1700000000), (''pids'', VList [VInt 1, VInt 2])]"

definition contest2 :: doc where
  "contest2 = [(''_id'', VOid oid3), (''title'', VStr ''Round 2'')]"

definition problem1 :: doc where
  "problem1 = [(''_id'', VOid oid1), (''docId'', VInt 1), (''title'', VStr ''A+B''),
               (''pid'', VStr ''P1000''), (''config'', VStr cfg_scored)]"

definition problem2 :: doc where
  "problem2 = [(''_id'', VOid oid2), (''docId'', VInt 2), (''title'', VStr ''Broken''),
               (''pid'', VStr ''P1001''), (''config'', VStr cfg_broken)]"

definition problem3 :: doc where
  "problem3 = [(''_id'', VOid oid3), (''docId'', VInt 3), (''title'', VStr ''Plain''),
               (''pid'', VStr ''P1002''), (''config'', VStr cfg_plain)]"

definition problem4 :: doc where
  "problem4 = [(''_id'', VOid oid4), (''docId'', VInt 4), (''title'', VStr ''Null subtasks''),
               (''pid'', VStr ''P1''), (''config'', VStr cfg_null_subtasks)]"

definition loaded_scored :: val where
  "loaded_scored = VDict [(''subtasks'', VList [VDict [(''score'', VInt 40)],
                                               VDict [(''score'', VInt 60)],
                                               VDict [(''time'', VStr ''1s'')]])]"

definition system10 :: args where
  "system10 = mk_args [(''domainId'', ''system''), (''docType'', ''10'')]"

section \<open>What the specification expects\<close>

text \<open>
  The definitions of this section are not taken from the program: they write down the
  specification's wording, for the theorems to compare the handlers with.
\<close>

text \<open>A parameter counts as missing when it is not in the query string or is empty.\<close>

definition absent :: "string option \<Rightarrow> bool" where
  "absent a = (case a of None \<Rightarrow> True | Some s \<Rightarrow> s = [])"

definition handlers :: "(world \<Rightarrow> args \<Rightarrow> response \<times> event list) list" where
  "handlers = [get_documents, get_records, get_user, get_user_groups]"

definition has_field :: "doc \<Rightarrow> string \<Rightarrow> bool" where
  "has_field d k = (map_of d k \<noteq> None)"

fun is_str :: "val \<Rightarrow> bool" where
  "is_str (VStr s) = True"
| "is_str _ = False"

fun is_list :: "val \<Rightarrow> bool" where
  "is_list (VList xs) = True"
| "is_list _ = False"

text \<open>A field of an emitted item.\<close>

fun item_field :: "val \<Rightarrow> string \<Rightarrow> val option" where
  "item_field (VDict kvs) k = map_of kvs k"
| "item_field _ k = None"

text \<open>
  A contest-like document as the data model describes it: an identifier, a title that
  is text, and, when stored, a start time and a list of problem numbers that JSON can
  carry.
\<close>

definition doc30_ok :: "doc \<Rightarrow> bool" where
  "doc30_ok d =
     (has_field d ''_id'' \<and> is_str (get_or d ''title'' VNull) \<and>
      serializable (get_or d ''beginAt'' VNull) \<and>
      is_list (get_or d ''pids'' (VList [])) \<and> serializable (get_or d ''pids'' (VList [])))"

definition spec_item30 :: "world \<Rightarrow> doc \<Rightarrow> val" where
  "spec_item30 w d =
     VDict [(''_id'', VStr (py_str w (get_or d ''_id'' VNull))),
            (''docId'', VStr (py_str w (get_or d ''docId'' VNull))),
            (''title'', get_or d ''title'' VNull),
            (''beginAt'', get_or d ''beginAt'' VNull),
            (''pids'', get_or d ''pids'' (VList []))]"

fun is_item30 :: "val \<Rightarrow> bool" where
  "is_item30 (VDict [(k1, VStr oid), (k2, VStr doc_id), (k3, VStr title), (k4, begin_at),
                     (k5, VList pids)]) =
     (k1 = ''_id'' \<and> k2 = ''docId'' \<and> k3 = ''title'' \<and> k4 = ''beginAt'' \<and> k5 = ''pids'')"
| "is_item30 _ = False"

text \<open>The total of a configuration: a missing score is 0, missing or null subtasks are none.\<close>

fun score_or_zero :: "val \<Rightarrow> int" where
  "score_or_zero (VDict kvs) = (case map_of kvs ''score'' of Some (VInt n) \<Rightarrow> n | _ \<Rightarrow> 0)"
| "score_or_zero _ = 0"

fun subtasks_of :: "val \<Rightarrow> val list" where
  "subtasks_of (VDict kvs) = (case map_of kvs ''subtasks'' of Some (VList sts) \<Rightarrow> sts | _ \<Rightarrow> [])"
| "subtasks_of _ = []"

definition spec_total :: "val \<Rightarrow> int" where
  "spec_total cfg = sum_list (map score_or_zero (subtasks_of cfg))"

text \<open>
  A configuration as the data model describes it: nothing at all, or a mapping whose
  \<^verbatim>\<open>subtasks\<close>, when the key is there, is a list of mappings with an integer score or
  none.
\<close>

fun subtask_ok :: "val \<Rightarrow> bool" where
  "subtask_ok (VDict kvs) =
     (case map_of kvs ''score'' of None \<Rightarrow> True | Some (VInt n) \<Rightarrow> True | Some _ \<Rightarrow> False)"
| "subtask_ok _ = False"

fun config_ok :: "val \<Rightarrow> bool" where
  "config_ok VNull = True"
| "config_ok (VDict kvs) =
     (case map_of kvs ''subtasks'' of
        None \<Rightarrow> True
      | Some (VList sts) \<Rightarrow> list_all subtask_ok sts
      | Some _ \<Rightarrow> False)"
| "config_ok _ = False"

text \<open>
  A problem-like document as the data model describes it, whose configuration text
  either is refused by the YAML parser or loads to a configuration as above.
\<close>

definition doc10_ok :: "world \<Rightarrow> doc \<Rightarrow> bool" where
  "doc10_ok w d =
     (has_field d ''_id'' \<and>
      has_field d ''docId'' \<and> serializable (get_or d ''docId'' VNull) \<and>
      has_field d ''title'' \<and> serializable (get_or d ''title'' VNull) \<and>
      has_field d ''pid'' \<and> serializable (get_or d ''pid'' VNull) \<and>
      (case map_of d ''config'' of
         None \<Rightarrow> False
       | Some config \<Rightarrow>
           (case yaml_safe_load w config of
              Inl e \<Rightarrow> e = YAMLError
            | Inr config_data \<Rightarrow> config_ok config_data)))"

definition scored_item :: "world \<Rightarrow> doc \<Rightarrow> int \<Rightarrow> val" where
  "scored_item w d n =
     VDict [(''_id'', VStr (py_str w (get_or d ''_id'' VNull))),
            (''docId'', get_or d ''docId'' VNull),
            (''title'', get_or d ''title'' VNull),
            (''pid'', get_or d ''pid'' VNull),
            (''score'', VInt n)]"

definition failed_item :: "world \<Rightarrow> doc \<Rightarrow> val" where
  "failed_item w d =
     VDict [(''_id'', VStr (py_str w (get_or d ''_id'' VNull))),
            (''docId'', get_or d ''docId'' VNull),
            (''title'', get_or d ''title'' VNull),
            (''pid'', get_or d ''pid'' VNull),
            (''score'', VInt 0),
            (''error'', VStr ''Invalid config format'')]"

definition spec_item10 :: "world \<Rightarrow> doc \<Rightarrow> val" where
  "spec_item10 w d =
     (case yaml_safe_load w (get_or d ''config'' VNull) of
        Inl e \<Rightarrow> failed_item w d
      | Inr config_data \<Rightarrow> scored_item w d (spec_total config_data))"


section \<open>The shape of every handler\<close>

lemma connected_client:
  "connected w \<Longrightarrow> \<exists>c. get_mongo_client w = (Inr c, snd (get_mongo_client w))"
  by (cases "get_mongo_client w") (auto simp: connected_def split: sum.splits)

lemma get_documents_connected:
  "connected w \<Longrightarrow> get_documents w args =
     (finish (fst (documents_body w args)),
      snd (get_mongo_client w) @ snd (documents_body w args) @ [ClientClosed])"
  by (auto simp: get_documents_def close_mongo_client_def dest!: connected_client
      split: prod.splits)

lemma get_records_connected:
  "connected w \<Longrightarrow> get_records w args =
     (finish (fst (records_body w args)),
      snd (get_mongo_client w) @ snd (records_body w args) @ [ClientClosed])"
  by (auto simp: get_records_def close_mongo_client_def dest!: connected_client
      split: prod.splits)

lemma get_user_connected:
  "connected w \<Longrightarrow> get_user w args =
     (finish (fst (user_body w args)),
      snd (get_mongo_client w) @ snd (user_body w args) @ [ClientClosed])"
  by (auto simp: get_user_def close_mongo_client_def dest!: connected_client
      split: prod.splits)

lemma get_user_groups_connected:
  "connected w \<Longrightarrow> get_user_groups w args =
     (finish (fst (user_groups_body w args)),
      snd (get_mongo_client w) @ snd (user_groups_body w args) @ [ClientClosed])"
  by (auto simp: get_user_groups_def close_mongo_client_def dest!: connected_client
      split: prod.splits)

lemma respond_error: "respond (error_json msg) st = Inr (Json (error_json msg), st)"
  by (simp add: respond_def jsonify_def bind_exc_def error_json_def)

lemma finish_Inr: "finish (Inr r) = r"
  by (simp add: finish_def)

lemma finish_ValueError: "finish (Inl (ValueError s)) = (ErrorStr (ValueError s), 500)"
  by (simp add: finish_def handle_exc_def)

lemma get_mongo_client_trace:
  "snd (get_mongo_client w) = [] \<or>
   (\<exists>h p. snd (get_mongo_client w) = [ClientCreated h p, Ping])"
  by (auto simp: get_mongo_client_def Let_def split: sum.splits option.splits)

lemma get_mongo_client_no_query: "list_all (\<lambda>e. \<not> is_query e) (snd (get_mongo_client w))"
  using get_mongo_client_trace [of w] by auto

lemma connected_demo: "connected demo_world"
  by (simp add: connected_def get_mongo_client_def demo_world_def int_of_str_def demo_int_def
      ascii_digit_def Let_def)

lemma trace_demo: "snd (get_mongo_client demo_world) = [ClientCreated ''oj-mongo'' 27017, Ping]"
  by (simp add: connected_def get_mongo_client_def demo_world_def int_of_str_def demo_int_def
      ascii_digit_def Let_def)

section \<open>The document route: validation\<close>

text \<open>
  Claim C10. On the document route the \<^verbatim>\<open>docType\<close> parameter is converted to an integer
  before any parameter is validated. Once the client is acquired, a \<^verbatim>\<open>docType\<close> that
  \<^verbatim>\<open>int\<close> refuses gives status 500 with the message of the conversion failure, whatever
  \<^verbatim>\<open>domainId\<close> is: the response is neither 400 "Invalid docType" nor 400 "domainId is
  required". No query runs and the client is closed.
\<close>

theorem docType_conversion_first:
  assumes "connected w" and "args ''docType'' = Some s" and "py_int w s = None"
  shows "get_documents w args =
           ((ErrorStr (ValueError s), 500), snd (get_mongo_client w) @ [ClientClosed]) \<and>
         fst (get_documents w args) \<noteq> (Json (error_json ''Invalid docType''), 400) \<and>
         fst (get_documents w args) \<noteq> (Json (error_json ''domainId is required''), 400)"
  using assms
  by (simp add: get_documents_connected documents_body_def doc_type_arg_def int_of_str_def
      finish_ValueError)

text \<open>The request \<^verbatim>\<open>/hydro/document?docType=abc\<close>, without \<^verbatim>\<open>domainId\<close>.\<close>

theorem docType_conversion_first_witness:
  "connected demo_world \<and> mk_args [(''docType'', ''abc'')] ''docType'' = Some ''abc'' \<and>
   py_int demo_world ''abc'' = None \<and>
   mk_args [(''docType'', ''abc'')] ''domainId'' = None \<and>
   get_documents demo_world (mk_args [(''docType'', ''abc'')]) =
     ((ErrorStr (ValueError ''abc''), 500), [ClientCreated ''oj-mongo'' 27017, Ping, ClientClosed])"
proof -
  have a: "mk_args [(''docType'', ''abc'')] ''docType'' = Some ''abc''"
    by (simp add: mk_args_def)
  have b: "py_int demo_world ''abc'' = None"
    by (simp add: demo_world_def demo_int_def ascii_digit_def)
  have c: "mk_args [(''docType'', ''abc'')] ''domainId'' = None"
    by (simp add: mk_args_def)
  from docType_conversion_first
         [where w = demo_world and args = "mk_args [(''docType'', ''abc'')]" and s = "''abc''",
          OF connected_demo a b] a b c
  show ?thesis
    by (simp add: connected_demo trace_demo)
qed

text \<open>
  Claim C8. On the document route, once the client is acquired and \<^verbatim>\<open>domainId\<close> is
  supplied, every \<^verbatim>\<open>docType\<close> other than 10 and 30 gives 400 "Invalid docType": the
  parameter left out, which stands for 0, and every string that \<^verbatim>\<open>int\<close> converts to
  an integer other than 10 and 30. No query runs and the client is closed.
\<close>

theorem invalid_docType:
  assumes "connected w" and "args ''domainId'' = Some d" and "d \<noteq> []"
    and "args ''docType'' = None \<or>
         (\<exists>s n. args ''docType'' = Some s \<and> py_int w s = Some n \<and> n \<noteq> 10 \<and> n \<noteq> 30)"
  shows "get_documents w args =
           ((Json (error_json ''Invalid docType''), 400),
            snd (get_mongo_client w) @ [ClientClosed])"
  using assms
  by (auto simp: get_documents_connected documents_body_def doc_type_arg_def int_of_str_def
      respond_error finish_Inr)

text \<open>
  The requests \<^verbatim>\<open>/hydro/document?domainId=system\<close>, with \<^verbatim>\<open>docType\<close> left out, and
  \<^verbatim>\<open>/hydro/document?domainId=system&docType=99\<close>.
\<close>

theorem invalid_docType_witness:
  "connected demo_world \<and> mk_args [(''domainId'', ''system'')] ''domainId'' = Some ''system'' \<and>
   ''system'' \<noteq> [] \<and> mk_args [(''domainId'', ''system'')] ''docType'' = None \<and>
   get_documents demo_world (mk_args [(''domainId'', ''system'')]) =
     ((Json (error_json ''Invalid docType''), 400),
      [ClientCreated ''oj-mongo'' 27017, Ping, ClientClosed]) \<and>
   py_int demo_world ''99'' = Some 99 \<and>
   get_documents demo_world (mk_args [(''domainId'', ''system''), (''docType'', ''99'')]) =
     ((Json (error_json ''Invalid docType''), 400),
      [ClientCreated ''oj-mongo'' 27017, Ping, ClientClosed])"
proof -
  have a: "mk_args [(''domainId'', ''system'')] ''domainId'' = Some ''system''"
    by (simp add: mk_args_def)
  have b: "''system'' \<noteq> []"
    by simp
  have c: "mk_args [(''domainId'', ''system'')] ''docType'' = None"
    by (simp add: mk_args_def)
  have d: "py_int demo_world ''99'' = Some 99"
    by (simp add: demo_world_def demo_int_def ascii_digit_def)
  have e: "get_documents demo_world (mk_args [(''domainId'', ''system''), (''docType'', ''99'')]) =
     ((Json (error_json ''Invalid docType''), 400),
      snd (get_mongo_client demo_world) @ [ClientClosed])"
    using d invalid_docType
         [where w = demo_world and d = "''system''"
            and args = "mk_args [(''domainId'', ''system''), (''docType'', ''99'')]"]
    by (simp add: connected_demo mk_args_def)
  from invalid_docType
         [where w = demo_world and args = "mk_args [(''domainId'', ''system'')]"
            and d = "''system''", OF connected_demo a b disjI1 [OF c]] a c d e
  show ?thesis
    by (simp add: connected_demo trace_demo)
qed

section \<open>Missing parameters\<close>

lemma absent_cases: "absent a \<longleftrightarrow> a = None \<or> a = Some []"
  by (simp add: absent_def split: option.splits)

text \<open>
  Claim C3, amended. Every handler acquires the client before it looks at the
  parameters, and the document route converts \<^verbatim>\<open>docType\<close> before it checks
  \<^verbatim>\<open>domainId\<close>. So: once the client is acquired (and, on the document route, \<^verbatim>\<open>docType\<close>
  is left out or converts), a request without a required parameter gets status 400 with
  the message of that parameter, no query runs, and the client is closed.
\<close>

theorem missing_parameter:
  assumes "connected w"
  shows "(absent (args ''domainId'') \<and> (\<exists>n. doc_type_arg w args = Inr n) \<longrightarrow>
            get_documents w args = ((Json (error_json ''domainId is required''), 400),
                                    snd (get_mongo_client w) @ [ClientClosed])) \<and>
         (absent (args ''domainId'') \<longrightarrow>
            get_records w args = ((Json (error_json ''domainId is required''), 400),
                                  snd (get_mongo_client w) @ [ClientClosed])) \<and>
         (\<not> absent (args ''domainId'') \<and> absent (args ''contest'') \<longrightarrow>
            get_records w args = ((Json (error_json ''contest is required''), 400),
                                  snd (get_mongo_client w) @ [ClientClosed])) \<and>
         (absent (args ''_id'') \<longrightarrow>
            get_user w args = ((Json (error_json ''_id is required''), 400),
                               snd (get_mongo_client w) @ [ClientClosed])) \<and>
         (absent (args ''domainId'') \<longrightarrow>
            get_user_groups w args = ((Json (error_json ''domainId is required''), 400),
                                      snd (get_mongo_client w) @ [ClientClosed])) \<and>
         list_all (\<lambda>e. \<not> is_query e) (snd (get_mongo_client w) @ [ClientClosed])"
proof (intro conjI impI)
  assume "absent (args ''domainId'') \<and> (\<exists>n. doc_type_arg w args = Inr n)"
  then show "get_documents w args = ((Json (error_json ''domainId is required''), 400),
                                    snd (get_mongo_client w) @ [ClientClosed])"
    using assms
    by (auto simp: get_documents_connected documents_body_def absent_cases respond_error finish_Inr)
next
  assume "absent (args ''domainId'')"
  then show "get_records w args = ((Json (error_json ''domainId is required''), 400),
                                  snd (get_mongo_client w) @ [ClientClosed])"
    using assms
    by (auto simp: get_records_connected records_body_def absent_cases respond_error finish_Inr)
next
  assume "\<not> absent (args ''domainId'') \<and> absent (args ''contest'')"
  then show "get_records w args = ((Json (error_json ''contest is required''), 400),
                                  snd (get_mongo_client w) @ [ClientClosed])"
    using assms
    by (auto simp: get_records_connected records_body_def absent_cases respond_error finish_Inr
        split: option.splits)
next
  assume "absent (args ''_id'')"
  then show "get_user w args = ((Json (error_json ''_id is required''), 400),
                               snd (get_mongo_client w) @ [ClientClosed])"
    using assms
    by (auto simp: get_user_connected user_body_def absent_cases respond_error finish_Inr)
next
  assume "absent (args ''domainId'')"
  then show "get_user_groups w args = ((Json (error_json ''domainId is required''), 400),
                                      snd (get_mongo_client w) @ [ClientClosed])"
    using assms
    by (auto simp: get_user_groups_connected user_groups_body_def absent_cases respond_error
        finish_Inr)
next
  show "list_all (\<lambda>e. \<not> is_query e) (snd (get_mongo_client w) @ [ClientClosed])"
    using get_mongo_client_no_query [of w] by simp
qed

text \<open>
  Claim C3 as stated fails: with the database unreachable, a record request without
  \<^verbatim>\<open>domainId\<close> is answered with 500, not 400.
\<close>

theorem missing_parameter_counterexample:
  "mk_args [] ''domainId'' = None \<and>
   fst (get_records down_world (mk_args [])) =
     (Json (error_json ''Failed to connect to MongoDB''), 500)"
  by (simp add: mk_args_def get_records_def handle_exc_def get_mongo_client_def down_world_def
      demo_world_def int_of_str_def demo_int_def ascii_digit_def Let_def)

lemma not_connected_down: "fst (get_mongo_client down_world) = Inl ConnectionFailure"
  by (simp add: get_mongo_client_def down_world_def demo_world_def int_of_str_def demo_int_def
      ascii_digit_def Let_def)

theorem missing_parameter_witness:
  "connected demo_world \<and>
   absent (mk_args [] ''domainId'') \<and> absent (mk_args [] ''_id'') \<and>
   doc_type_arg demo_world (mk_args []) = Inr 0 \<and>
   get_documents demo_world (mk_args []) =
     ((Json (error_json ''domainId is required''), 400),
      [ClientCreated ''oj-mongo'' 27017, Ping, ClientClosed]) \<and>
   get_records demo_world (mk_args []) =
     ((Json (error_json ''domainId is required''), 400),
      [ClientCreated ''oj-mongo'' 27017, Ping, ClientClosed]) \<and>
   get_user demo_world (mk_args []) =
     ((Json (error_json ''_id is required''), 400),
      [ClientCreated ''oj-mongo'' 27017, Ping, ClientClosed]) \<and>
   get_user_groups demo_world (mk_args []) =
     ((Json (error_json ''domainId is required''), 400),
      [ClientCreated ''oj-mongo'' 27017, Ping, ClientClosed]) \<and>
   \<not> absent (mk_args [(''domainId'', ''system'')] ''domainId'') \<and>
   absent (mk_args [(''domainId'', ''system'')] ''contest'') \<and>
   get_records demo_world (mk_args [(''domainId'', ''system'')]) =
     ((Json (error_json ''contest is required''), 400),
      [ClientCreated ''oj-mongo'' 27017, Ping, ClientClosed])"
proof -
  have a: "absent (mk_args [] ''domainId'')" "absent (mk_args [] ''_id'')"
    by (simp_all add: mk_args_def absent_def)
  have b: "doc_type_arg demo_world (mk_args []) = Inr 0"
    by (simp add: doc_type_arg_def mk_args_def)
  have c: "\<not> absent (mk_args [(''domainId'', ''system'')] ''domainId'')"
    "absent (mk_args [(''domainId'', ''system'')] ''contest'')"
    by (simp_all add: mk_args_def absent_def)
  from missing_parameter [where w = demo_world and args = "mk_args []", OF connected_demo]
    missing_parameter [where w = demo_world and args = "mk_args [(''domainId'', ''system'')]",
      OF connected_demo]
    a b c
  show ?thesis
    by (simp add: connected_demo trace_demo)
qed

section \<open>Connection lifecycle\<close>

lemma documents_body_trace: "ClientClosed \<notin> set (snd (documents_body w args))"
  by (simp add: documents_body_def split: sum.splits option.splits)

lemma records_body_trace: "ClientClosed \<notin> set (snd (records_body w args))"
  by (simp add: records_body_def split: sum.splits option.splits)

lemma user_body_trace: "ClientClosed \<notin> set (snd (user_body w args))"
  by (simp add: user_body_def split: sum.splits option.splits)

lemma user_groups_body_trace: "ClientClosed \<notin> set (snd (user_groups_body w args))"
  by (simp add: user_groups_body_def split: sum.splits option.splits)

lemma get_mongo_client_not_closed: "ClientClosed \<notin> set (snd (get_mongo_client w))"
  using get_mongo_client_trace [of w] by auto

lemma get_mongo_client_one_ping: "length (filter (\<lambda>e. e = Ping) (snd (get_mongo_client w))) \<le> 1"
  using get_mongo_client_trace [of w] by auto

lemma handler_cases:
  "h \<in> set handlers \<Longrightarrow>
   h = get_documents \<or> h = get_records \<or> h = get_user \<or> h = get_user_groups"
  by (auto simp: handlers_def)

lemma not_connected_handler:
  assumes "h \<in> set handlers" and "fst (get_mongo_client w) = Inl e"
  shows "h w args = (handle_exc e, snd (get_mongo_client w))"
  using handler_cases [OF assms(1)] assms(2)
  by (cases "get_mongo_client w")
     (auto simp: get_documents_def get_records_def get_user_def get_user_groups_def
        close_mongo_client_def)

lemma connected_handler:
  assumes "h \<in> set handlers" and "connected w"
  shows "\<exists>tr. snd (h w args) = tr @ [ClientClosed] \<and> ClientClosed \<notin> set tr"
proof -
  let ?c = "snd (get_mongo_client w)"
  consider "h = get_documents" | "h = get_records" | "h = get_user" | "h = get_user_groups"
    using handler_cases [OF assms(1)] by blast
  then show ?thesis
  proof cases
    case 1
    have "snd (h w args) = (?c @ snd (documents_body w args)) @ [ClientClosed]"
      by (simp add: 1 get_documents_connected [OF assms(2)])
    moreover have "ClientClosed \<notin> set (?c @ snd (documents_body w args))"
      by (simp add: get_mongo_client_not_closed documents_body_trace)
    ultimately show ?thesis by blast
  next
    case 2
    have "snd (h w args) = (?c @ snd (records_body w args)) @ [ClientClosed]"
      by (simp add: 2 get_records_connected [OF assms(2)])
    moreover have "ClientClosed \<notin> set (?c @ snd (records_body w args))"
      by (simp add: get_mongo_client_not_closed records_body_trace)
    ultimately show ?thesis by blast
  next
    case 3
    have "snd (h w args) = (?c @ snd (user_body w args)) @ [ClientClosed]"
      by (simp add: 3 get_user_connected [OF assms(2)])
    moreover have "ClientClosed \<notin> set (?c @ snd (user_body w args))"
      by (simp add: get_mongo_client_not_closed user_body_trace)
    ultimately show ?thesis by blast
  next
    case 4
    have "snd (h w args) = (?c @ snd (user_groups_body w args)) @ [ClientClosed]"
      by (simp add: 4 get_user_groups_connected [OF assms(2)])
    moreover have "ClientClosed \<notin> set (?c @ snd (user_groups_body w args))"
      by (simp add: get_mongo_client_not_closed user_groups_body_trace)
    ultimately show ?thesis by blast
  qed
qed

text \<open>
  Claim C4. On each of the four routes: when acquiring the client fails with a
  connection failure, the response is status 500 with the body
  \<^verbatim>\<open>{"error": "Failed to connect to MongoDB"}\<close> after a single attempt (at most one
  ping, and nothing after it); and when the client was acquired, it is closed exactly
  once, as the last thing the handler does, whatever the try block did: returned a
  result, returned a validation error, or raised. When no client was acquired the
  handler has none to close.
\<close>

theorem connection_lifecycle:
  assumes "h \<in> set handlers"
  shows "(fst (get_mongo_client w) = Inl ConnectionFailure \<longrightarrow>
            h w args = ((Json (error_json ''Failed to connect to MongoDB''), 500),
                        snd (get_mongo_client w)) \<and>
            length (filter (\<lambda>e. e = Ping) (snd (h w args))) \<le> 1) \<and>
         (connected w \<longrightarrow>
            (\<exists>tr. snd (h w args) = tr @ [ClientClosed] \<and> ClientClosed \<notin> set tr)) \<and>
         (\<not> connected w \<longrightarrow> ClientClosed \<notin> set (snd (h w args)))"
proof (intro conjI impI)
  assume f: "fst (get_mongo_client w) = Inl ConnectionFailure"
  show "h w args = ((Json (error_json ''Failed to connect to MongoDB''), 500),
                    snd (get_mongo_client w))"
    by (simp add: not_connected_handler [OF assms f] handle_exc_def)
  show "length (filter (\<lambda>e. e = Ping) (snd (h w args))) \<le> 1"
    using get_mongo_client_one_ping [of w] by (simp add: not_connected_handler [OF assms f])
next
  assume "connected w"
  then show "\<exists>tr. snd (h w args) = tr @ [ClientClosed] \<and> ClientClosed \<notin> set tr"
    by (rule connected_handler [OF assms])
next
  assume "\<not> connected w"
  then obtain e where "fst (get_mongo_client w) = Inl e"
    by (auto simp: connected_def split: sum.splits)
  then show "ClientClosed \<notin> set (snd (h w args))"
    by (simp add: not_connected_handler [OF assms] get_mongo_client_not_closed)
qed

lemma trace_down: "snd (get_mongo_client down_world) = [ClientCreated ''oj-mongo'' 27017, Ping]"
  by (simp add: get_mongo_client_def down_world_def demo_world_def int_of_str_def demo_int_def
      ascii_digit_def Let_def)

text \<open>
  The user route with the database unreachable, and the user route for user 42 with the
  database there.
\<close>

theorem connection_lifecycle_witness:
  "get_user \<in> set handlers \<and>
   fst (get_mongo_client down_world) = Inl ConnectionFailure \<and> \<not> connected down_world \<and>
   get_user down_world (mk_args [(''_id'', ''42'')]) =
     ((Json (error_json ''Failed to connect to MongoDB''), 500),
      [ClientCreated ''oj-mongo'' 27017, Ping]) \<and>
   connected demo_world \<and>
   (\<exists>tr. snd (get_user demo_world (mk_args [(''_id'', ''42'')])) = tr @ [ClientClosed] \<and>
         ClientClosed \<notin> set tr)"
proof -
  have a: "get_user \<in> set handlers"
    by (simp add: handlers_def)
  have b: "\<not> connected down_world"
    by (simp add: connected_def not_connected_down)
  from connection_lifecycle [OF a, where w = down_world and args = "mk_args [(''_id'', ''42'')]"]
    connection_lifecycle [OF a, where w = demo_world and args = "mk_args [(''_id'', ''42'')]"]
    a b
  show ?thesis
    by (simp add: not_connected_down trace_down connected_demo)
qed

section \<open>The record route: the contest parameter\<close>

lemma respond_ok: "serializable v \<Longrightarrow> respond v st = Inr (Json v, st)"
  by (simp add: respond_def jsonify_def bind_exc_def)

lemma respond_empty: "respond (VList []) st = Inr (Json (VList []), st)"
  by (simp add: respond_ok)

text \<open>
  Claim C7. On the record route, once the client is acquired and both \<^verbatim>\<open>domainId\<close> and
  \<^verbatim>\<open>contest\<close> are supplied: a \<^verbatim>\<open>contest\<close> that \<^verbatim>\<open>ObjectId\<close> refuses gives 400 "Invalid
  contest ObjectId", without any query; a \<^verbatim>\<open>contest\<close> that it accepts and for which the
  query finds no record gives 200 with the empty array.
\<close>

theorem contest_validation:
  assumes "connected w" and "args ''domainId'' = Some d" and "d \<noteq> []"
    and "args ''contest'' = Some c" and "c \<noteq> []"
  shows "(bson_ObjectId w c = None \<longrightarrow>
            get_records w args = ((Json (error_json ''Invalid contest ObjectId''), 400),
                                  snd (get_mongo_client w) @ [ClientClosed])) \<and>
         (\<forall>oid. bson_ObjectId w c = Some oid \<and>
                db_find w ''record'' (query_record d oid) fields_record = Inr [] \<longrightarrow>
            fst (get_records w args) = (Json (VList []), 200))"
  using assms
  by (auto simp: get_records_connected records_body_def respond_error respond_empty finish_Inr
      bind_exc_def)

text \<open>
  The requests \<^verbatim>\<open>/hydro/record?domainId=system&contest=xyz\<close> and, with a well-formed
  identifier that no record carries,
  \<^verbatim>\<open>/hydro/record?domainId=system&contest=64b000000000000000000009\<close>.
\<close>

theorem contest_validation_witness:
  "connected demo_world \<and> bson_ObjectId demo_world ''xyz'' = None \<and>
   get_records demo_world (mk_args [(''domainId'', ''system''), (''contest'', ''xyz'')]) =
     ((Json (error_json ''Invalid contest ObjectId''), 400),
      [ClientCreated ''oj-mongo'' 27017, Ping, ClientClosed]) \<and>
   bson_ObjectId demo_world oid9 = Some oid9 \<and>
   db_find demo_world ''record'' (query_record ''system'' oid9) fields_record = Inr [] \<and>
   fst (get_records demo_world (mk_args [(''domainId'', ''system''), (''contest'', oid9)])) =
     (Json (VList []), 200)"
proof -
  have a: "bson_ObjectId demo_world ''xyz'' = None"
    by (simp add: demo_world_def demo_ObjectId_def)
  have b: "bson_ObjectId demo_world oid9 = Some oid9"
    by (simp add: demo_world_def demo_ObjectId_def oid9_def hex_digit_def)
  have c: "db_find demo_world ''record'' (query_record ''system'' oid9) fields_record = Inr []"
    by (simp add: demo_world_def demo_find_def demo_collection_def matches_def query_record_def
        oid9_def oid2_def)
  have d: "oid9 \<noteq> []"
    by (simp add: oid9_def)
  from contest_validation
         [where w = demo_world and d = "''system''" and c = "''xyz''"
            and args = "mk_args [(''domainId'', ''system''), (''contest'', ''xyz'')]"]
       contest_validation
         [where w = demo_world and d = "''system''" and c = oid9
            and args = "mk_args [(''domainId'', ''system''), (''contest'', oid9)]"]
       a b c d
  show ?thesis
    by (simp add: connected_demo trace_demo mk_args_def)
qed

section \<open>The user route: the digit guard\<close>

text \<open>
  What the user route does with a supplied \<^verbatim>\<open>_id\<close>, once the client is acquired. The
  last case is the one the guard does not cover: \<^verbatim>\<open>isdigit\<close> accepts the string and
  \<^verbatim>\<open>int\<close> refuses it.
\<close>

lemma get_user_cases:
  assumes "connected w" and "args ''_id'' = Some s" and "s \<noteq> []"
  shows "\<not> str_isdigit w s \<Longrightarrow>
           get_user w args = ((Json (error_json ''_id must be an integer''), 400),
                              snd (get_mongo_client w) @ [ClientClosed])"
    and "str_isdigit w s \<Longrightarrow> py_int w s = Some n \<Longrightarrow>
         db_find_one w ''user'' [(''_id'', VInt n)] [''uname''] = Inr (Some u) \<Longrightarrow>
         map_of u ''uname'' = Some name \<Longrightarrow> serializable name \<Longrightarrow>
           fst (get_user w args) = (Json (VDict [(''uname'', name)]), 200)"
    and "str_isdigit w s \<Longrightarrow> py_int w s = Some n \<Longrightarrow>
         db_find_one w ''user'' [(''_id'', VInt n)] [''uname''] = Inr None \<Longrightarrow>
           fst (get_user w args) = (Json (error_json ''User not found''), 404)"
    and "str_isdigit w s \<Longrightarrow> py_int w s = None \<Longrightarrow>
           get_user w args = ((ErrorStr (ValueError s), 500),
                              snd (get_mongo_client w) @ [ClientClosed])"
  using assms
  by (auto simp: get_user_connected user_body_def respond_error finish_Inr finish_ValueError
      int_of_str_def bind_exc_def getitem_def respond_ok)

text \<open>
  Claim C6 fails on the code at the request \<^verbatim>\<open>/hydro/user?_id=%C2%B2\<close>, whose \<^verbatim>\<open>_id\<close> is
  the one character U+00B2 (superscript two). The string is not made of decimal digits
  and no user has it as a key, so the claim asks for 400 (or 404); \<^verbatim>\<open>str.isdigit\<close>
  accepts it, \<^verbatim>\<open>int\<close> raises \<^verbatim>\<open>ValueError\<close>, and the answer is 500.
\<close>

theorem get_user_superscript_two:
  "str_isdigit demo_world superscript_two \<and> py_int demo_world superscript_two = None \<and>
   get_user demo_world (mk_args [(''_id'', superscript_two)]) =
     ((ErrorStr (ValueError superscript_two), 500),
      [ClientCreated ''oj-mongo'' 27017, Ping, ClientClosed])"
proof -
  have a: "str_isdigit demo_world superscript_two"
    by (simp add: demo_world_def demo_isdigit_def superscript_two_def ascii_digit_def)
  have b: "py_int demo_world superscript_two = None"
    by (simp add: demo_world_def demo_int_def superscript_two_def ascii_digit_def)
  have c: "superscript_two \<noteq> []"
    by (simp add: superscript_two_def)
  from get_user_cases(4) [where w = demo_world and s = superscript_two
      and args = "mk_args [(''_id'', superscript_two)]", OF connected_demo _ c a b] a b
  show ?thesis
    by (simp add: trace_demo mk_args_def)
qed

text \<open>The requests \<^verbatim>\<open>?_id=4a\<close>, \<^verbatim>\<open>?_id=42\<close> (a user) and \<^verbatim>\<open>?_id=43\<close> (no user).\<close>

lemma get_user_examples:
  "fst (get_user demo_world (mk_args [(''_id'', ''4a'')])) =
     (Json (error_json ''_id must be an integer''), 400)"
  "fst (get_user demo_world (mk_args [(''_id'', ''42'')])) =
     (Json (VDict [(''uname'', VStr ''alice'')]), 200)"
  "fst (get_user demo_world (mk_args [(''_id'', ''43'')])) =
     (Json (error_json ''User not found''), 404)"
proof -
  have i: "py_int demo_world ''42'' = Some 42" "py_int demo_world ''43'' = Some 43"
    by (simp_all add: demo_world_def demo_int_def ascii_digit_def)
  have d: "\<not> str_isdigit demo_world ''4a''" "str_isdigit demo_world ''42''"
    "str_isdigit demo_world ''43''"
    by (simp_all add: demo_world_def demo_isdigit_def ascii_digit_def)
  have f: "db_find_one demo_world ''user'' [(''_id'', VInt 42)] [''uname''] =
             Inr (Some [(''_id'', VInt 42), (''uname'', VStr ''alice'')])"
    "db_find_one demo_world ''user'' [(''_id'', VInt 43)] [''uname''] = Inr None"
    by (simp_all add: demo_world_def demo_find_one_def demo_collection_def matches_def
        project_def)
  show "fst (get_user demo_world (mk_args [(''_id'', ''4a'')])) =
     (Json (error_json ''_id must be an integer''), 400)"
    using get_user_cases(1) [where w = demo_world and s = "''4a''"
        and args = "mk_args [(''_id'', ''4a'')]", OF connected_demo _ _ d(1)]
    by (simp add: mk_args_def)
  show "fst (get_user demo_world (mk_args [(''_id'', ''42'')])) =
     (Json (VDict [(''uname'', VStr ''alice'')]), 200)"
    using get_user_cases(2) [where w = demo_world and s = "''42''"
        and args = "mk_args [(''_id'', ''42'')]", OF connected_demo _ _ d(2) i(1) f(1)]
    by (simp add: mk_args_def)
  show "fst (get_user demo_world (mk_args [(''_id'', ''43'')])) =
     (Json (error_json ''User not found''), 404)"
    using get_user_cases(3) [where w = demo_world and s = "''43''"
        and args = "mk_args [(''_id'', ''43'')]", OF connected_demo _ _ d(3) i(2) f(2)]
    by (simp add: mk_args_def)
qed

section \<open>Determinism\<close>












section \<open>The document route: contest-like documents\<close>

lemma map_exc_all:
  "\<forall>x \<in> set xs. f x = Inr (g x) \<Longrightarrow> map_exc f xs = Inr (map g xs)"
  by (induction xs) simp_all

lemma getitem_has_field: "has_field d k \<Longrightarrow> getitem d k = Inr (get_or d k dflt)"
  by (auto simp: has_field_def getitem_def get_or_def)

lemma is_str_has_field: "is_str (get_or d k VNull) \<Longrightarrow> has_field d k"
  by (auto simp: has_field_def get_or_def split: option.splits)

lemma item30_ok: "doc30_ok d \<Longrightarrow> item30 w d = Inr (spec_item30 w d)"
  by (simp add: doc30_ok_def item30_def spec_item30_def bind_exc_def
      getitem_has_field [where dflt = VNull] is_str_has_field)

lemma is_str_serializable: "is_str v \<Longrightarrow> serializable v"
  by (cases v) simp_all

lemma spec_item30_serializable: "doc30_ok d \<Longrightarrow> serializable (spec_item30 w d)"
  by (simp add: doc30_ok_def spec_item30_def is_str_serializable)

lemma spec_item30_shape: "doc30_ok d \<Longrightarrow> is_item30 (spec_item30 w d)"
proof -
  assume a: "doc30_ok d"
  then obtain t where t: "get_or d ''title'' VNull = VStr t"
    by (cases "get_or d ''title'' VNull") (simp_all add: doc30_ok_def)
  from a obtain ps where ps: "get_or d ''pids'' (VList []) = VList ps"
    by (cases "get_or d ''pids'' (VList [])") (simp_all add: doc30_ok_def)
  show ?thesis
    by (simp add: spec_item30_def t ps)
qed

lemma documents_body_30:
  assumes "args ''domainId'' = Some domain_id" and "domain_id \<noteq> []" and "doc_type_arg w args = Inr 30"
    and "db_find w ''document'' (query30 domain_id) fields30 = Inr docs"
  shows "fst (documents_body w args) =
           bind_exc (map_exc (item30 w) docs) (\<lambda>result. respond (VList result) 200)"
  using assms by (simp add: documents_body_def bind_exc_def)

text \<open>
  Claim C5. On the document route with \<^verbatim>\<open>docType=30\<close>, when the matched documents are
  as the data model has them (an identifier, a title that is text, and a start time
  and a list of problem numbers when stored), the response is 200 and its items are, in
  the order of the query: \<^verbatim>\<open>_id\<close> and \<^verbatim>\<open>docId\<close> as strings (\<^verbatim>\<open>str\<close> of what is
  stored, whatever its type), the title, \<^verbatim>\<open>beginAt\<close> as stored or null when absent,
  and \<^verbatim>\<open>pids\<close> a list, the empty one when the field is absent.
\<close>

theorem documents30_items:
  assumes "connected w" and "args ''domainId'' = Some domain_id" and "domain_id \<noteq> []"
    and "doc_type_arg w args = Inr 30"
    and "db_find w ''document'' (query30 domain_id) fields30 = Inr docs"
    and "\<forall>d \<in> set docs. doc30_ok d"
  shows "fst (get_documents w args) = (Json (VList (map (spec_item30 w) docs)), 200) \<and>
         (\<forall>d \<in> set docs. is_item30 (spec_item30 w d)) \<and>
         (\<forall>d \<in> set docs. \<not> has_field d ''pids'' \<longrightarrow>
            item_field (spec_item30 w d) ''pids'' = Some (VList [])) \<and>
         (\<forall>d \<in> set docs. \<not> has_field d ''beginAt'' \<longrightarrow>
            item_field (spec_item30 w d) ''beginAt'' = Some VNull)"
proof (intro conjI ballI impI)
  have "map_exc (item30 w) docs = Inr (map (spec_item30 w) docs)"
    using assms(6) by (intro map_exc_all) (simp add: item30_ok)
  moreover have "serializable (VList (map (spec_item30 w) docs))"
    using assms(6) by (simp add: spec_item30_serializable)
  ultimately show "fst (get_documents w args) = (Json (VList (map (spec_item30 w) docs)), 200)"
    by (simp add: get_documents_connected [OF assms(1)] documents_body_30 [OF assms(2-5)]
        bind_exc_def respond_ok finish_Inr)
next
  fix d assume "d \<in> set docs"
  then show "is_item30 (spec_item30 w d)"
    using assms(6) by (simp add: spec_item30_shape)
next
  fix d assume "\<not> has_field d ''pids''"
  then show "item_field (spec_item30 w d) ''pids'' = Some (VList [])"
    by (simp add: spec_item30_def has_field_def get_or_def)
next
  fix d assume "\<not> has_field d ''beginAt''"
  then show "item_field (spec_item30 w d) ''beginAt'' = Some VNull"
    by (simp add: spec_item30_def has_field_def get_or_def)
qed

lemma find30_demo:
  "db_find demo_world ''document'' (query30 ''system'') fields30 = Inr [contest1, contest2]"
  by (simp add: demo_world_def demo_find_def demo_collection_def matches_def query30_def
      project_def fields30_def contest1_def contest2_def)

theorem documents30_items_witness:
  "connected demo_world \<and>
   db_find demo_world ''document'' (query30 ''system'') fields30 = Inr [contest1, contest2] \<and>
   doc30_ok contest1 \<and> doc30_ok contest2 \<and> has_field contest1 ''pids'' \<and>
   \<not> has_field contest2 ''pids'' \<and>
   fst (get_documents demo_world (mk_args [(''domainId'', ''system''), (''docType'', ''30'')])) =
     (Json (VList [VDict [(''_id'', VStr oid1), (''docId'', VStr oid2),
                          (''title'', VStr ''Round 1''), (''beginAt'', VDate 1700000000),
                          (''pids'', VList [VInt 1, VInt 2])],
                   VDict [(''_id'', VStr oid3), (''docId'', VStr ''None''),
                          (''title'', VStr ''Round 2''), (''beginAt'', VNull),
                          (''pids'', VList [])]]), 200)"
proof -
  let ?args = "mk_args [(''domainId'', ''system''), (''docType'', ''30'')]"
  have a: "?args ''domainId'' = Some ''system''"
    by (simp add: mk_args_def)
  have b: "doc_type_arg demo_world ?args = Inr 30"
    by (simp add: doc_type_arg_def mk_args_def int_of_str_def demo_world_def demo_int_def
        ascii_digit_def)
  have c: "\<forall>d \<in> set [contest1, contest2]. doc30_ok d"
    by (simp add: doc30_ok_def contest1_def contest2_def has_field_def get_or_def)
  have d: "has_field contest1 ''pids''" "\<not> has_field contest2 ''pids''"
    by (simp_all add: contest1_def contest2_def has_field_def)
  have e: "py_str demo_world = demo_str"
    by (simp add: demo_world_def)
  from documents30_items [OF connected_demo a _ b find30_demo c] c d
  show ?thesis
    by (simp add: connected_demo find30_demo spec_item30_def e contest1_def contest2_def
        get_or_def)
qed

section \<open>The document route: problem-like documents\<close>

lemma sum_scores_ok:
  "list_all subtask_ok sts \<Longrightarrow>
   sum_scores sts acc = Inr (acc + sum_list (map score_or_zero sts))"
proof (induction sts arbitrary: acc)
  case Nil
  then show ?case by simp
next
  case (Cons st sts)
  from Cons.prems obtain kvs where st: "st = VDict kvs"
    by (cases st) simp_all
  from Cons.prems have rest: "list_all subtask_ok sts"
    by simp
  from Cons.prems st
  have "bind_exc (py_get st ''score'' (VInt 0)) (py_iadd acc) = Inr (acc + score_or_zero st)"
    by (auto simp: bind_exc_def get_or_def split: option.splits val.splits)
  then show ?case
    using Cons.IH [OF rest, of "acc + score_or_zero st"]
    by (auto simp: bind_exc_def split: sum.splits)
qed

lemma contains_map_of: "k \<in> set (map fst kvs) \<longleftrightarrow> map_of kvs k \<noteq> None"
  by (simp add: map_of_eq_None_iff)

lemma score_of_config_ok: "config_ok cfg \<Longrightarrow> score_of_config cfg = Inr (spec_total cfg)"
proof (cases cfg)
  case (VDict kvs)
  assume ok: "config_ok cfg"
  show ?thesis
  proof (cases "map_of kvs ''subtasks''")
    case None
    then show ?thesis
      using VDict
      by (simp add: score_of_config_def spec_total_def bind_exc_def contains_map_of
          del: set_map)
  next
    case (Some st)
    with ok VDict obtain sts where st: "st = VList sts" and all: "list_all subtask_ok sts"
      by (cases st) simp_all
    from Some have ne: "kvs \<noteq> []"
      by auto
    show ?thesis
      using VDict Some st ne sum_scores_ok [OF all, of 0]
      by (simp add: score_of_config_def spec_total_def bind_exc_def contains_map_of getitem_def
          del: set_map)
  qed
qed (simp_all add: score_of_config_def spec_total_def)

lemma item10_ok:
  assumes "doc10_ok w d"
  shows "item10 w d = Inr (spec_item10 w d)"
proof -
  from assms obtain config where c: "map_of d ''config'' = Some config"
    by (auto simp: doc10_ok_def split: option.splits)
  then have g: "getitem d ''config'' = Inr config" "get_or d ''config'' VNull = config"
    by (simp_all add: getitem_def get_or_def)
  from assms have f: "getitem d ''_id'' = Inr (get_or d ''_id'' VNull)"
    "getitem d ''docId'' = Inr (get_or d ''docId'' VNull)"
    "getitem d ''title'' = Inr (get_or d ''title'' VNull)"
    "getitem d ''pid'' = Inr (get_or d ''pid'' VNull)"
    by (simp_all add: doc10_ok_def getitem_has_field)
  show ?thesis
  proof (cases "yaml_safe_load w config")
    case (Inl e)
    with assms c have "e = YAMLError"
      by (simp add: doc10_ok_def)
    with Inl have "item10_try w d = Inl YAMLError"
      by (simp add: item10_try_def g bind_exc_def)
    then show ?thesis
      using Inl by (simp add: item10_def item10_except_def f bind_exc_def spec_item10_def g
          failed_item_def)
  next
    case (Inr config_data)
    with assms c have "config_ok config_data"
      by (simp add: doc10_ok_def)
    then have "score_of_config config_data = Inr (spec_total config_data)"
      by (rule score_of_config_ok)
    with Inr have "item10_try w d = Inr (scored_item w d (spec_total config_data))"
      by (simp add: item10_try_def g f bind_exc_def scored_item_def)
    then show ?thesis
      using Inr by (simp add: item10_def spec_item10_def g)
  qed
qed

lemma loop10_all:
  "\<forall>d \<in> set ds. item10 w d = Inr (g d) \<Longrightarrow> loop10 w ds acc = Inr (acc @ map g ds)"
  by (induction ds arbitrary: acc) simp_all

lemma spec_item10_serializable: "doc10_ok w d \<Longrightarrow> serializable (spec_item10 w d)"
  by (simp add: doc10_ok_def spec_item10_def scored_item_def failed_item_def split: sum.splits)

lemma documents_body_10:
  assumes "args ''domainId'' = Some domain_id" and "domain_id \<noteq> []"
    and "doc_type_arg w args = Inr 10"
    and "db_find w ''document'' (query10 domain_id) fields10 = Inr docs"
  shows "fst (documents_body w args) =
           bind_exc (loop10 w docs []) (\<lambda>result. respond (VList result) 200)"
  using assms by (simp add: documents_body_def bind_exc_def)

lemma documents10_response:
  assumes "connected w" and "args ''domainId'' = Some domain_id" and "domain_id \<noteq> []"
    and "doc_type_arg w args = Inr 10"
    and "db_find w ''document'' (query10 domain_id) fields10 = Inr docs"
    and "\<forall>d \<in> set docs. doc10_ok w d"
  shows "fst (get_documents w args) = (Json (VList (map (spec_item10 w) docs)), 200)"
proof -
  have "loop10 w docs [] = Inr ([] @ map (spec_item10 w) docs)"
    using assms(6) by (intro loop10_all) (simp add: item10_ok)
  moreover have "serializable (VList (map (spec_item10 w) docs))"
    using assms(6) by (simp add: spec_item10_serializable)
  ultimately show ?thesis
    by (simp add: get_documents_connected [OF assms(1)] documents_body_10 [OF assms(2-5)]
        bind_exc_def respond_ok finish_Inr)
qed

text \<open>
  The scores of well-formed configurations. On the document route with
  \<^verbatim>\<open>docType=10\<close>, when every matched document is as the data model has it (identifier, \<^verbatim>\<open>docId\<close>, title, \<^verbatim>\<open>pid\<close>, and a
  configuration text that the parser refuses or that loads to nothing or to a mapping
  whose \<^verbatim>\<open>subtasks\<close>, when the key is there, is a list of mappings with an integer score
  or none), the response is 200 with one item per document, and the item of each
  document whose configuration loads is \<^verbatim>\<open>_id\<close> as a string, \<^verbatim>\<open>docId\<close> as stored, the
  title, \<^verbatim>\<open>pid\<close>, and \<^verbatim>\<open>score\<close> the exact sum of the scores of its subtasks, a subtask
  without score counting 0 and a configuration without the \<^verbatim>\<open>subtasks\<close> key having
  none.
\<close>

lemma documents10_scores:
  assumes "connected w" and "args ''domainId'' = Some domain_id" and "domain_id \<noteq> []"
    and "doc_type_arg w args = Inr 10"
    and "db_find w ''document'' (query10 domain_id) fields10 = Inr docs"
    and "\<forall>d \<in> set docs. doc10_ok w d"
  shows "\<exists>items. fst (get_documents w args) = (Json (VList items), 200) \<and>
           length items = length docs \<and>
           (\<forall>i < length docs. \<forall>config_data.
              yaml_safe_load w (get_or (docs ! i) ''config'' VNull) = Inr config_data \<longrightarrow>
              items ! i = scored_item w (docs ! i) (spec_total config_data))"
proof (intro exI conjI allI impI)
  show "fst (get_documents w args) = (Json (VList (map (spec_item10 w) docs)), 200)"
    by (rule documents10_response [OF assms])
  show "length (map (spec_item10 w) docs) = length docs"
    by simp
next
  fix i config_data
  assume "i < length docs"
    and "yaml_safe_load w (get_or (docs ! i) ''config'' VNull) = Inr config_data"
  then show "map (spec_item10 w) docs ! i = scored_item w (docs ! i) (spec_total config_data)"
    by (simp add: spec_item10_def)
qed

text \<open>
  Claim C2. On the document route with \<^verbatim>\<open>docType=10\<close>, when every matched document
  is as the data model has it (as for the scores above), the item of each document whose
  configuration the YAML parser refuses has the same fields with score 0 and the added
  field \<^verbatim>\<open>error\<close>, "Invalid config format". The refusal does not end the request: the
  loop goes on, every matched document has its item, and the response is 200.
\<close>

theorem documents10_parse_failure:
  assumes "connected w" and "args ''domainId'' = Some domain_id" and "domain_id \<noteq> []"
    and "doc_type_arg w args = Inr 10"
    and "db_find w ''document'' (query10 domain_id) fields10 = Inr docs"
    and "\<forall>d \<in> set docs. doc10_ok w d"
  shows "\<exists>items. fst (get_documents w args) = (Json (VList items), 200) \<and>
           length items = length docs \<and>
           (\<forall>i < length docs.
              yaml_safe_load w (get_or (docs ! i) ''config'' VNull) = Inl YAMLError \<longrightarrow>
              items ! i = failed_item w (docs ! i))"
proof (intro exI conjI allI impI)
  show "fst (get_documents w args) = (Json (VList (map (spec_item10 w) docs)), 200)"
    by (rule documents10_response [OF assms])
  show "length (map (spec_item10 w) docs) = length docs"
    by simp
next
  fix i
  assume "i < length docs"
    and "yaml_safe_load w (get_or (docs ! i) ''config'' VNull) = Inl YAMLError"
  then show "map (spec_item10 w) docs ! i = failed_item w (docs ! i)"
    by (simp add: spec_item10_def)
qed

lemma find10_demo:
  "db_find demo_world ''document'' (query10 ''system'') fields10 =
     Inr [problem1, problem2, problem3]"
  "db_find demo_world ''document'' (query10 ''other'') fields10 = Inr [problem4]"
  by (simp_all add: demo_world_def demo_find_def demo_collection_def matches_def query10_def
      project_def fields10_def problem1_def problem2_def problem3_def problem4_def)

lemma load_demo:
  "yaml_safe_load demo_world (get_or problem1 ''config'' VNull) = Inr loaded_scored"
  "yaml_safe_load demo_world (get_or problem2 ''config'' VNull) = Inl YAMLError"
  "yaml_safe_load demo_world (get_or problem3 ''config'' VNull) =
     Inr (VDict [(''time'', VStr ''1s'')])"
  "yaml_safe_load demo_world (get_or problem4 ''config'' VNull) =
     Inr (VDict [(''subtasks'', VNull)])"
  by (simp_all add: demo_world_def get_or_def problem1_def problem2_def problem3_def
      problem4_def cfg_scored_def cfg_broken_def cfg_plain_def cfg_null_subtasks_def
      loaded_scored_def)

lemma docs10_demo_ok: "\<forall>d \<in> set [problem1, problem2, problem3]. doc10_ok demo_world d"
proof -
  have "doc10_ok demo_world problem1"
    using load_demo(1)
    by (simp add: doc10_ok_def has_field_def get_or_def problem1_def loaded_scored_def)
  moreover have "doc10_ok demo_world problem2"
    using load_demo(2) by (simp add: doc10_ok_def has_field_def get_or_def problem2_def)
  moreover have "doc10_ok demo_world problem3"
    using load_demo(3) by (simp add: doc10_ok_def has_field_def get_or_def problem3_def)
  ultimately show ?thesis
    by simp
qed

lemma system10_args:
  "system10 ''domainId'' = Some ''system''" "doc_type_arg demo_world system10 = Inr 10"
  by (simp_all add: system10_def doc_type_arg_def mk_args_def int_of_str_def demo_world_def
      demo_int_def ascii_digit_def)

text \<open>
  The request \<^verbatim>\<open>/hydro/document?domainId=system&docType=10\<close>: three problems, the first
  with subtasks of 40, 60 and no score, the second with a text the parser refuses, the
  third without subtasks.
\<close>

lemma documents10_scores_example:
  "connected demo_world \<and>
   db_find demo_world ''document'' (query10 ''system'') fields10 =
     Inr [problem1, problem2, problem3] \<and>
   doc10_ok demo_world problem1 \<and> doc10_ok demo_world problem2 \<and>
   doc10_ok demo_world problem3 \<and>
   yaml_safe_load demo_world (get_or problem1 ''config'' VNull) = Inr loaded_scored \<and>
   (\<exists>items. fst (get_documents demo_world system10) = (Json (VList items), 200) \<and>
      length items = 3 \<and>
      items ! 0 = VDict [(''_id'', VStr oid1), (''docId'', VInt 1), (''title'', VStr ''A+B''),
                         (''pid'', VStr ''P1000''), (''score'', VInt 100)] \<and>
      items ! 2 = VDict [(''_id'', VStr oid3), (''docId'', VInt 3), (''title'', VStr ''Plain''),
                         (''pid'', VStr ''P1002''), (''score'', VInt 0)])"
proof -
  from documents10_scores [OF connected_demo system10_args(1) _ system10_args(2) find10_demo(1)
      docs10_demo_ok]
  obtain items where r: "fst (get_documents demo_world system10) = (Json (VList items), 200)"
    and n: "length items = length [problem1, problem2, problem3]"
    and s: "\<forall>i < length [problem1, problem2, problem3]. \<forall>config_data.
              yaml_safe_load demo_world (get_or ([problem1, problem2, problem3] ! i) ''config'' VNull)
                = Inr config_data \<longrightarrow>
              items ! i = scored_item demo_world ([problem1, problem2, problem3] ! i)
                            (spec_total config_data)"
    by auto
  have e: "py_str demo_world = demo_str"
    by (simp add: demo_world_def)
  from s load_demo(1) have "items ! 0 = scored_item demo_world problem1 (spec_total loaded_scored)"
    by auto
  then have i0: "items ! 0 = VDict [(''_id'', VStr oid1), (''docId'', VInt 1),
      (''title'', VStr ''A+B''), (''pid'', VStr ''P1000''), (''score'', VInt 100)]"
    by (simp add: scored_item_def spec_total_def loaded_scored_def problem1_def get_or_def e)
  from s load_demo(3)
  have "items ! 2 = scored_item demo_world problem3 (spec_total (VDict [(''time'', VStr ''1s'')]))"
    by auto
  then have i2: "items ! 2 = VDict [(''_id'', VStr oid3), (''docId'', VInt 3),
      (''title'', VStr ''Plain''), (''pid'', VStr ''P1002''), (''score'', VInt 0)]"
    by (simp add: scored_item_def spec_total_def problem3_def get_or_def e)
  from r n i0 i2 show ?thesis
    using connected_demo find10_demo(1) docs10_demo_ok load_demo(1) by auto
qed

text \<open>The same request: the second problem's item.\<close>

theorem documents10_parse_failure_witness:
  "connected demo_world \<and>
   db_find demo_world ''document'' (query10 ''system'') fields10 =
     Inr [problem1, problem2, problem3] \<and>
   doc10_ok demo_world problem1 \<and> doc10_ok demo_world problem2 \<and>
   doc10_ok demo_world problem3 \<and>
   yaml_safe_load demo_world (get_or problem2 ''config'' VNull) = Inl YAMLError \<and>
   (\<exists>items. fst (get_documents demo_world system10) = (Json (VList items), 200) \<and>
      length items = 3 \<and>
      items ! 1 = VDict [(''_id'', VStr oid2), (''docId'', VInt 2), (''title'', VStr ''Broken''),
                         (''pid'', VStr ''P1001''), (''score'', VInt 0),
                         (''error'', VStr ''Invalid config format'')])"
proof -
  from documents10_parse_failure [OF connected_demo system10_args(1) _ system10_args(2)
      find10_demo(1) docs10_demo_ok]
  obtain items where r: "fst (get_documents demo_world system10) = (Json (VList items), 200)"
    and n: "length items = length [problem1, problem2, problem3]"
    and s: "\<forall>i < length [problem1, problem2, problem3].
              yaml_safe_load demo_world (get_or ([problem1, problem2, problem3] ! i) ''config'' VNull)
                = Inl YAMLError \<longrightarrow>
              items ! i = failed_item demo_world ([problem1, problem2, problem3] ! i)"
    by auto
  have e: "py_str demo_world = demo_str"
    by (simp add: demo_world_def)
  from s load_demo(2) have "items ! 1 = failed_item demo_world problem2"
    by auto
  then have i1: "items ! 1 = VDict [(''_id'', VStr oid2), (''docId'', VInt 2),
      (''title'', VStr ''Broken''), (''pid'', VStr ''P1001''), (''score'', VInt 0),
      (''error'', VStr ''Invalid config format'')]"
    by (simp add: failed_item_def problem2_def get_or_def e)
  from r n i1 show ?thesis
    using connected_demo find10_demo(1) docs10_demo_ok load_demo(2) by auto
qed

text \<open>
  Claim C1 fails on the code at the request
  \<^verbatim>\<open>/hydro/document?domainId=other&docType=10\<close>. The one matched document has the
  configuration text \<^verbatim>\<open>subtasks: null\<close>, which loads to a mapping whose \<^verbatim>\<open>subtasks\<close>
  is null. The claim counts null subtasks as the empty list and asks for an item with
  score 0, as the handler gives for an empty configuration, a missing \<^verbatim>\<open>subtasks\<close> key
  and a missing score. Here the guard before the loop passes, the loop over the subtasks
  raises \<^verbatim>\<open>TypeError\<close>, which the clause for YAML errors does not catch, and the
  whole listing is answered with 500.
\<close>

theorem documents10_null_subtasks:
  "db_find demo_world ''document'' (query10 ''other'') fields10 = Inr [problem4] \<and>
   yaml_safe_load demo_world (get_or problem4 ''config'' VNull) =
     Inr (VDict [(''subtasks'', VNull)]) \<and>
   spec_total (VDict [(''subtasks'', VNull)]) = 0 \<and>
   fst (get_documents demo_world (mk_args [(''domainId'', ''other''), (''docType'', ''10'')])) =
     (ErrorStr TypeError, 500)"
proof -
  let ?args = "mk_args [(''domainId'', ''other''), (''docType'', ''10'')]"
  have a: "?args ''domainId'' = Some ''other''" "doc_type_arg demo_world ?args = Inr 10"
    by (simp_all add: doc_type_arg_def mk_args_def int_of_str_def demo_world_def demo_int_def
        ascii_digit_def)
  have "score_of_config (VDict [(''subtasks'', VNull)]) = Inl TypeError"
    by (simp add: score_of_config_def bind_exc_def getitem_def)
  with load_demo(4) have "item10_try demo_world problem4 = Inl TypeError"
    by (simp add: item10_try_def bind_exc_def getitem_def get_or_def problem4_def)
  then have "loop10 demo_world [problem4] [] = Inl TypeError"
    by (simp add: item10_def)
  then have "fst (get_documents demo_world ?args) = (ErrorStr TypeError, 500)"
    by (simp add: get_documents_connected [OF connected_demo]
        documents_body_10 [OF a(1) _ a(2) find10_demo(2)] bind_exc_def finish_def
        handle_exc_def)
  then show ?thesis
    using find10_demo(2) load_demo(4) by (simp add: spec_total_def)
qed

end
